theory Spec2Isabelle
  imports Main "HOL-Library.Word"
begin

section \<open>Go values shared by both packages\<close>

type_synonym int32 = "32 word"
type_synonym uint8 = "8 word"
type_synonym go_int = "64 word"

text \<open>
  A Go \<open>error\<close> value. \<open>ErrorString m\<close> is an error known by its message (an error of
  the SDL bindings or of the operating system, or \<open>fmt.Errorf\<close> over plain strings);
  \<open>Wrap err m\<close> is \<open>errors.Wrap(err, m)\<close>; \<open>Errorf fmt err\<close> is \<open>fmt.Errorf(fmt, err)\<close>.
  A function returning \<open>error\<close> returns \<open>go_error option\<close>, \<open>None\<close> for \<open>nil\<close>.
\<close>

datatype go_error = ErrorString string | Wrap go_error string | Errorf string go_error

text \<open>A call either returns a value or panics (the panic unwinds: nothing recovers).\<close>

datatype 'a outcome = Returns 'a | Panics

section \<open>Package grafio: the SDL2 adapter (pkg/grafio/drawer.go, pkg/grafio/sdl2.go)\<close>

subsection \<open>Values of drawer.go\<close>

datatype RGBA = RGBA uint8 uint8 uint8 uint8

definition ColorGreen :: RGBA where
  "ColorGreen = RGBA 34 139 34 10"

definition ColorWhite :: RGBA where
  "ColorWhite = RGBA 255 255 255 255"

definition ColorBlack :: RGBA where
  "ColorBlack = RGBA 0 0 0 0"

type_synonym TextAlign = go_int

definition Right :: TextAlign where
  "Right = 2"

text \<open>
  \<open>XCof\<close> and \<open>YCof\<close> are \<open>float32\<close>; the type of floats is left open as \<open>'f\<close>, and
  \<open>sizeCal\<close>, the one function that computes with them, is a parameter of \<open>Text\<close>.
\<close>

record 'f TextOpts =
  Size :: int32
  XCof :: 'f
  YCof :: 'f
  Color :: RGBA
  Align :: TextAlign

subsection \<open>The SDL bindings as seen from sdl2.go\<close>

datatype Rect = Rect int32 int32 int32 int32

datatype sdl_Color = SDL_Color uint8 uint8 uint8 uint8

datatype Surface = Surface nat

text \<open>A texture handle, with what \<open>texture.Destroy()\<close> returns for it.\<close>

record Texture =
  texture_handle :: nat
  Destroy :: "go_error option"

text \<open>A loaded font, with what \<open>font.RenderUTF8Solid(txt, c)\<close> returns.\<close>

record Font =
  font_handle :: nat
  RenderUTF8Solid :: "string \<Rightarrow> sdl_Color \<Rightarrow> go_error + Surface"

datatype renderer_call =
    Clear
  | SetDrawColor uint8 uint8 uint8 uint8
  | FillRect "Rect option"
  | Copy Texture "Rect option" "Rect option"
  | CreateTextureFromSurface Surface
  | RendererPresent

text \<open>
  The \<open>*sdl.Renderer\<close>: the calls made on it so far (oldest first), and the library's
  answers, which may depend on the calls made before: \<open>fails\<close> is the error a call
  returns (\<open>None\<close> for \<open>nil\<close>), \<open>created\<close> the texture a successful
  \<open>CreateTextureFromSurface\<close> returns.
\<close>

record renderer =
  history :: "renderer_call list"
  fails :: "renderer_call list \<Rightarrow> renderer_call \<Rightarrow> go_error option"
  created :: "renderer_call list \<Rightarrow> Surface \<Rightarrow> Texture"

definition invoke :: "renderer_call \<Rightarrow> renderer \<Rightarrow> go_error option \<times> renderer" where
  "invoke c rd = (fails rd (history rd) c, rd\<lparr>history := history rd @ [c]\<rparr>)"

definition create_texture :: "Surface \<Rightarrow> renderer \<Rightarrow> (go_error + Texture) \<times> renderer" where
  "create_texture surface rd =
     (case invoke (CreateTextureFromSurface surface) rd of
        (Some err, rd') \<Rightarrow> (Inl err, rd')
      | (None, rd') \<Rightarrow> (Inr (created rd (history rd) surface), rd'))"

text \<open>The files and directories \<open>LoadResources\<close> reads.\<close>

record FileInfo =
  Name :: string
  IsDir :: bool

record filesystem =
  ReadDir :: "string \<Rightarrow> go_error + FileInfo list"
  Load :: "string \<Rightarrow> go_error + Surface"
  OpenFont :: "string \<Rightarrow> int \<Rightarrow> go_error + Font"

subsection \<open>Sdl2Draw\<close>

record Sdl2Draw =
  r :: renderer
  fonts :: "string \<rightharpoonup> Font"
  textures :: "string \<rightharpoonup> Texture"
  mainFont :: string
  w :: int32
  h :: int32

text \<open>
  \<open>prepareSdl2\<close> is not among the sources; \<open>NewSdl2Draw\<close> takes what it returns for a
  width and a height (an error, or the renderer) as the parameter \<open>prepare\<close>.
\<close>

definition NewSdl2Draw ::
  "(int32 \<Rightarrow> int32 \<Rightarrow> go_error + renderer) \<Rightarrow> string \<Rightarrow> int32 \<Rightarrow> int32 \<Rightarrow> go_error + Sdl2Draw" where
  "NewSdl2Draw prepare font wd ht =
     (case prepare wd ht of
        Inl err \<Rightarrow> Inl (Wrap err ''could not prepare sdl2 engine'')
      | Inr rd \<Rightarrow>
          Inr \<lparr>r = rd, fonts = Map.empty, textures = Map.empty, mainFont = font,
               w = wd, h = ht\<rparr>)"

definition SetMainFont :: "string \<Rightarrow> Sdl2Draw \<Rightarrow> go_error option \<times> Sdl2Draw" where
  "SetMainFont fontFileName s =
     (case fonts s fontFileName of
        None \<Rightarrow> (Some (ErrorString (''font '' @ fontFileName @ '' is not loaded'')), s)
      | Some _ \<Rightarrow> (None, s\<lparr>mainFont := fontFileName\<rparr>))"

definition ColorRect ::
  "int32 \<Rightarrow> int32 \<Rightarrow> int32 \<Rightarrow> int32 \<Rightarrow> RGBA \<Rightarrow> Sdl2Draw \<Rightarrow> go_error option \<times> Sdl2Draw" where
  "ColorRect x y wd ht rgba s =
     (case rgba of RGBA cr cg cb ca \<Rightarrow>
        (case invoke (SetDrawColor cr cg cb ca) (r s) of
           (Some err, rd) \<Rightarrow> (Some (Wrap err ''could not set draw color''), s\<lparr>r := rd\<rparr>)
         | (None, rd) \<Rightarrow>
             (case invoke (FillRect (Some (Rect x y wd ht))) rd of
                (Some err, rd') \<Rightarrow> (Some (Wrap err ''could not fill rect''), s\<lparr>r := rd'\<rparr>)
              | (None, rd') \<Rightarrow> (None, s\<lparr>r := rd'\<rparr>))))"

definition TextureRect ::
  "int32 \<Rightarrow> int32 \<Rightarrow> int32 \<Rightarrow> int32 \<Rightarrow> string \<Rightarrow> Sdl2Draw \<Rightarrow> go_error option \<times> Sdl2Draw" where
  "TextureRect x y wd ht texture s =
     (case textures s texture of
        None \<Rightarrow> (Some (ErrorString (''texture '' @ texture @ '' is not found'')), s)
      | Some t \<Rightarrow>
          (case invoke (Copy t None (Some (Rect x y wd ht))) (r s) of
             (Some err, rd) \<Rightarrow> (Some (Wrap err ''could not copy texture''), s\<lparr>r := rd\<rparr>)
           | (None, rd) \<Rightarrow> (None, s\<lparr>r := rd\<rparr>)))"

definition ScreenHeight :: "Sdl2Draw \<Rightarrow> int32" where
  "ScreenHeight s = h s"

definition ScreenWidth :: "Sdl2Draw \<Rightarrow> int32" where
  "ScreenWidth s = w s"

definition Background :: "RGBA \<Rightarrow> Sdl2Draw \<Rightarrow> go_error option \<times> Sdl2Draw" where
  "Background rgba s =
     (case rgba of RGBA cr cg cb ca \<Rightarrow>
        (case invoke (SetDrawColor cr cg cb ca) (r s) of
           (Some err, rd) \<Rightarrow> (Some (Wrap err ''couldn't set color''), s\<lparr>r := rd\<rparr>)
         | (None, rd) \<Rightarrow>
             (case invoke (FillRect None) rd of
                (Some err, rd') \<Rightarrow> (Some (Wrap err ''couldn't fill rect''), s\<lparr>r := rd'\<rparr>)
              | (None, rd') \<Rightarrow> (None, s\<lparr>r := rd'\<rparr>))))"

text \<open>
  \<open>Present\<close> takes the closure \<open>f\<close>. A Go closure reads and writes the variables it has
  captured besides the drawer it reaches through its pointer: \<open>f\<close> is a function of the
  drawer and of the captured state \<open>'c\<close>, and returns both with its result.
\<close>

definition Present ::
  "(Sdl2Draw \<Rightarrow> 'c \<Rightarrow> go_error option outcome \<times> Sdl2Draw \<times> 'c) \<Rightarrow> Sdl2Draw \<Rightarrow> 'c
     \<Rightarrow> go_error option outcome \<times> Sdl2Draw \<times> 'c" where
  "Present f s c =
     (case invoke Clear (r s) of
        (Some err, rd) \<Rightarrow>
          (Returns (Some (Wrap err ''could not clear the renderer'')), s\<lparr>r := rd\<rparr>, c)
      | (None, rd) \<Rightarrow>
          (case Background ColorWhite (s\<lparr>r := rd\<rparr>) of
             (Some err, s1) \<Rightarrow>
               (Returns (Some (Wrap err ''could not set the background'')), s1, c)
           | (None, s1) \<Rightarrow>
               (case f s1 c of
                  (Panics, s2, c2) \<Rightarrow> (Panics, s2, c2)
                | (Returns (Some err), s2, c2) \<Rightarrow>
                    (Returns (Some (Wrap err ''could not execute user given function'')), s2, c2)
                | (Returns None, s2, c2) \<Rightarrow>
                    (Returns None, s2\<lparr>r := snd (invoke RendererPresent (r s2))\<rparr>, c2))))"

text \<open>
  \<open>Text\<close>. \<open>s.fonts[s.mainFont]\<close> is \<open>nil\<close> when the main font is not loaded, and
  rendering with the nil font dereferences it: the call panics. The two deferred calls
  run last first: \<open>texture.Destroy()\<close>, whose error replaces the result, then
  \<open>surface.Free()\<close>. \<open>int\<close> is 64 bits wide; \<open>len\<close> counts bytes.
\<close>

definition Text ::
  "(int32 \<Rightarrow> 'f \<Rightarrow> int32) \<Rightarrow> string \<Rightarrow> 'f TextOpts \<Rightarrow> Sdl2Draw
     \<Rightarrow> go_error option outcome \<times> Sdl2Draw" where
  "Text sizeCal txt opts s =
     (case Color opts of RGBA cr cg cb ca \<Rightarrow>
        (case fonts s (mainFont s) of
           None \<Rightarrow> (Panics, s)
         | Some font \<Rightarrow>
             (case RenderUTF8Solid font txt (SDL_Color cr cg cb ca) of
                Inl err \<Rightarrow> (Returns (Some (Wrap err ''could not render title'')), s)
              | Inr surface \<Rightarrow>
                  (case create_texture surface (r s) of
                     (Inl err, rd) \<Rightarrow>
                       (Returns (Some (Wrap err ''could not create texture'')), s\<lparr>r := rd\<rparr>)
                   | (Inr texture, rd) \<Rightarrow>
                       (let shift = (if Align opts = Right \<and> 1 < length txt
                                     then of_nat (length txt) * scast (Size opts) - scast (Size opts)
                                     else (0 :: go_int));
                            rect = Rect (sizeCal (w s) (XCof opts) - ucast shift)
                                        (sizeCal (h s) (YCof opts))
                                        (Size opts * of_nat (length txt))
                                        (Size opts + 20);
                            (copied, rd') = invoke (Copy texture None (Some rect)) rd;
                            erro = (case copied of
                                      Some err \<Rightarrow> Some (Wrap err ''could not copy texture'')
                                    | None \<Rightarrow> None)
                        in (Returns (case Destroy texture of
                                       Some err \<Rightarrow> Some (Wrap err ''could not destroy texture'')
                                     | None \<Rightarrow> erro),
                            s\<lparr>r := rd'\<rparr>))))))"

text \<open>\<open>LoadResources\<close>: the two loops over the directory listings.\<close>

fun load_textures ::
  "filesystem \<Rightarrow> string \<Rightarrow> FileInfo list \<Rightarrow> Sdl2Draw \<Rightarrow> go_error option \<times> Sdl2Draw" where
  "load_textures fs texturesPath [] s = (None, s)"
| "load_textures fs texturesPath (f # rest) s =
     (if IsDir f then load_textures fs texturesPath rest s
      else
        (case Load fs (texturesPath @ ''/'' @ Name f) of
           Inl err \<Rightarrow> (Some (Errorf (''failed to create texture: %v'' @ [CHR 0x0A]) err), s)
         | Inr loaded \<Rightarrow>
             (case create_texture loaded (r s) of
                (Inl err, rd) \<Rightarrow>
                  (Some (Errorf (''failed to create texture: %v'' @ [CHR 0x0A]) err), s\<lparr>r := rd\<rparr>)
              | (Inr texture, rd) \<Rightarrow>
                  load_textures fs texturesPath rest
                    (s\<lparr>r := rd, textures := (textures s)(Name f \<mapsto> texture)\<rparr>))))"

fun load_fonts ::
  "filesystem \<Rightarrow> string \<Rightarrow> FileInfo list \<Rightarrow> Sdl2Draw \<Rightarrow> go_error option \<times> Sdl2Draw" where
  "load_fonts fs fontsPath [] s = (None, s)"
| "load_fonts fs fontsPath (f # rest) s =
     (case OpenFont fs (fontsPath @ ''/'' @ Name f) 124 of
        Inl err \<Rightarrow> (Some (Errorf ''could not load font: %v'' err), s)
      | Inr font \<Rightarrow> load_fonts fs fontsPath rest (s\<lparr>fonts := (fonts s)(Name f \<mapsto> font)\<rparr>))"

text \<open>
  On success \<open>LoadResources\<close> also returns the closure \<open>func() error { return s.destroy() }\<close>;
  the model returns the error, and the closure is \<open>destroy\<close> below.
\<close>

definition LoadResources ::
  "filesystem \<Rightarrow> string \<Rightarrow> string \<Rightarrow> Sdl2Draw \<Rightarrow> go_error option \<times> Sdl2Draw" where
  "LoadResources fs fontsPath texturesPath s =
     (case ReadDir fs texturesPath of
        Inl err \<Rightarrow> (Some (Wrap err ''could not read dir''), s)
      | Inr listing \<Rightarrow>
          (case load_textures fs texturesPath listing s of
             (Some err, s1) \<Rightarrow> (Some err, s1)
           | (None, s1) \<Rightarrow>
               (case ReadDir fs fontsPath of
                  Inl err \<Rightarrow> (Some (Wrap err ''could not read dir''), s1)
                | Inr listing' \<Rightarrow> load_fonts fs fontsPath listing' s1)))"

text \<open>
  \<open>destroy\<close> ranges over the map \<open>s.textures\<close>, in an order Go leaves open: \<open>visit\<close> is
  the order in which the range visits the keys. The fonts are closed after the
  textures; closing returns nothing.
\<close>

fun destroy_textures :: "string list \<Rightarrow> Sdl2Draw \<Rightarrow> go_error option" where
  "destroy_textures [] s = None"
| "destroy_textures (k # visit) s =
     (case textures s k of
        None \<Rightarrow> destroy_textures visit s
      | Some texture \<Rightarrow>
          (case Destroy texture of
             Some err \<Rightarrow> Some (Wrap err ''could not destroy texture'')
           | None \<Rightarrow> destroy_textures visit s))"

definition destroy :: "string list \<Rightarrow> Sdl2Draw \<Rightarrow> go_error option \<times> Sdl2Draw" where
  "destroy visit s = (destroy_textures visit s, s)"

subsection \<open>Programs over the drawer\<close>

text \<open>
  What a client of the drawer can do to it: a sequence of calls of its methods. The body
  of a \<open>Present\<close> is such a sequence again, with the error the body returns when none of
  its calls panics. A panic ends the run.
\<close>

datatype 'f drawer_op =
    DoSetMainFont string
  | DoColorRect int32 int32 int32 int32 RGBA
  | DoTextureRect int32 int32 int32 int32 string
  | DoBackground RGBA
  | DoText string "'f TextOpts"
  | DoPresent "'f drawer_op list" "go_error option"
  | DoLoadResources filesystem string string
  | DoDestroy "string list"

fun run_op :: "(int32 \<Rightarrow> 'f \<Rightarrow> int32) \<Rightarrow> 'f drawer_op \<Rightarrow> Sdl2Draw \<Rightarrow> bool \<times> Sdl2Draw"
  and run_ops :: "(int32 \<Rightarrow> 'f \<Rightarrow> int32) \<Rightarrow> 'f drawer_op list \<Rightarrow> Sdl2Draw \<Rightarrow> bool \<times> Sdl2Draw" where
  "run_op sizeCal (DoSetMainFont name) s = (False, snd (SetMainFont name s))"
| "run_op sizeCal (DoColorRect x y wd ht rgba) s = (False, snd (ColorRect x y wd ht rgba s))"
| "run_op sizeCal (DoTextureRect x y wd ht texture) s = (False, snd (TextureRect x y wd ht texture s))"
| "run_op sizeCal (DoBackground rgba) s = (False, snd (Background rgba s))"
| "run_op sizeCal (DoText txt opts) s =
     (case Text sizeCal txt opts s of (res, s') \<Rightarrow> (res = Panics, s'))"
| "run_op sizeCal (DoPresent body res) s =
     (case Present (\<lambda>s' (c :: unit).
                      case run_ops sizeCal body s' of
                        (panicked, s'') \<Rightarrow> (if panicked then Panics else Returns res, s'', c))
                   s () of
        (res', s', c) \<Rightarrow> (res' = Panics, s'))"
| "run_op sizeCal (DoLoadResources fs fontsPath texturesPath) s =
     (False, snd (LoadResources fs fontsPath texturesPath s))"
| "run_op sizeCal (DoDestroy visit) s = (False, snd (destroy visit s))"
| "run_ops sizeCal [] s = (False, s)"
| "run_ops sizeCal (x # xs) s =
     (case run_op sizeCal x s of
        (True, s') \<Rightarrow> (True, s')
      | (False, s') \<Rightarrow> run_ops sizeCal xs s')"

section \<open>Package scene (internal/scene/scene.go)\<close>

subsection \<open>What scene.go uses of package object and of the SDL bindings\<close>

text \<open>
  Modelled from the spec: the type \<open>object.GameState\<close>, whose declaration is not among the
  sources. The spec has "GameState: enumerated value, one of {Menu, Running, Dead}";
  the constants carry the names scene.go gives them, and they are distinct, being the
  keys of one map literal. A Go enumeration is an integer type and holds other values
  too: \<open>OtherState n\<close>.
\<close>

datatype GameState = MenuScreen | SnakeRunning | DeadSnake | OtherState nat

record GameScreen =
  W :: int32
  H :: int32

text \<open>
  An \<open>sdl.Event\<close>, by the dynamic type the type switches of scene.go ask for:
  \<open>*sdl.QuitEvent\<close>, \<open>*sdl.KeyboardEvent\<close> (with its \<open>State\<close> and its \<open>Keysym.Sym\<close>), or
  anything else, \<open>nil\<close> included.
\<close>

datatype sdl_event = QuitEvent | KeyboardEvent uint8 int32 | OtherEvent nat

definition PRESSED :: uint8 where
  "PRESSED = 1"

definition K_ESCAPE :: int32 where
  "K_ESCAPE = 27"

text \<open>
  A game object behind an \<open>object.Paintable\<close>: its address, its \<open>Paint\<close>, and its \<open>Update\<close>
  and \<open>HandleEvent\<close> when its type has them (the type switches of scene.go on
  \<open>object.Updateable\<close> and \<open>object.Handleable\<close>). The objects' own variables, which they
  share through pointers, are the world \<open>'w\<close>; only \<open>Paint\<close> is handed the drawer.
\<close>

record 'w Paintable =
  addr :: nat
  Paint :: "Sdl2Draw \<Rightarrow> 'w \<Rightarrow> go_error option outcome \<times> Sdl2Draw \<times> 'w"
  Update :: "('w \<Rightarrow> GameState outcome \<times> 'w) option"
  HandleEvent :: "(sdl_event \<Rightarrow> 'w \<Rightarrow> unit outcome \<times> 'w) option"

text \<open>The constructors of package object that \<open>New\<close> calls, in the order it calls them.\<close>

record 'w object_package =
  NewApple :: "'w Paintable"
  NewScore :: "'w Paintable"
  NewSnake :: "'w Paintable \<Rightarrow> 'w Paintable \<Rightarrow> GameScreen \<Rightarrow> 'w Paintable"
  DeadScreen :: "'w Paintable \<Rightarrow> GameScreen \<Rightarrow> 'w Paintable"
  WelcomeText :: "GameScreen \<Rightarrow> 'w Paintable \<Rightarrow> 'w Paintable"

subsection \<open>Scene\<close>

text \<open>
  The fields \<open>r\<close> and \<open>w\<close> of \<open>Scene\<close> are never set nor read. The field \<open>drawer\<close> holds
  the pointer to the \<open>Sdl2Draw\<close> that main.go passes to \<open>New\<close>; the drawer it points to is
  passed along with the scene.
\<close>

record 'w Scene =
  state :: GameState
  paints :: "GameState \<rightharpoonup> 'w Paintable list"

text \<open>
  The calls the scene makes on its objects and on its drawer, oldest first: a history
  kept beside the world, which no object can write.
\<close>

datatype call = HandleEventCall nat sdl_event | UpdateCall nat | PresentCall | PaintCall nat

record 'w game =
  world :: 'w
  calls :: "call list"

definition New :: "'w object_package \<Rightarrow> Sdl2Draw \<Rightarrow> 'w Scene \<times> go_error option" where
  "New object d =
     (let scrn = \<lparr>W = ScreenWidth d, H = ScreenHeight d\<rparr>;
          apple = NewApple object;
          score = NewScore object;
          snake = NewSnake object apple score scrn;
          deadScreen = DeadScreen object score scrn;
          menuScreen = WelcomeText object scrn snake
      in (\<lparr>state = MenuScreen,
           paints = [MenuScreen \<mapsto> [menuScreen],
                     SnakeRunning \<mapsto> [snake, apple, score],
                     DeadSnake \<mapsto> [deadScreen]]\<rparr>,
          None))"

text \<open>
  \<open>s.paints[s.state]\<close>: a key that is not in the map gives the nil slice, over which
  \<open>range\<close> runs no iteration.
\<close>

definition active :: "'w Scene \<Rightarrow> 'w Paintable list" where
  "active s = (case paints s (state s) of None \<Rightarrow> [] | Some objs \<Rightarrow> objs)"

fun handleExit :: "sdl_event \<Rightarrow> bool" where
  "handleExit QuitEvent = True"
| "handleExit (KeyboardEvent st key) =
     (if st \<noteq> PRESSED then False else if key = K_ESCAPE then True else False)"
| "handleExit (OtherEvent n) = False"

text \<open>The loop of \<open>update\<close> over the objects, \<open>cur\<close> being \<open>s.state\<close>.\<close>

fun update_range :: "GameState \<Rightarrow> 'w Paintable list \<Rightarrow> 'w game \<Rightarrow> GameState outcome \<times> 'w game" where
  "update_range cur [] g = (Returns cur, g)"
| "update_range cur (p # rest) g =
     (case Update p of
        None \<Rightarrow> update_range cur rest g
      | Some upd \<Rightarrow>
          (case upd (world g) of
             (Panics, gw) \<Rightarrow> (Panics, \<lparr>world = gw, calls = calls g @ [UpdateCall (addr p)]\<rparr>)
           | (Returns st, gw) \<Rightarrow>
               (if st \<noteq> cur
                then (Returns st, \<lparr>world = gw, calls = calls g @ [UpdateCall (addr p)]\<rparr>)
                else update_range cur rest \<lparr>world = gw, calls = calls g @ [UpdateCall (addr p)]\<rparr>)))"

definition update :: "'w Scene \<Rightarrow> 'w game \<Rightarrow> GameState outcome \<times> 'w game" where
  "update s g = update_range (state s) (active s) g"

text \<open>The closure that \<open>paint\<close> hands to \<open>Present\<close>: the loop over the objects.\<close>

fun paint_range ::
  "'w Paintable list \<Rightarrow> Sdl2Draw \<Rightarrow> 'w game \<Rightarrow> go_error option outcome \<times> Sdl2Draw \<times> 'w game" where
  "paint_range [] d g = (Returns None, d, g)"
| "paint_range (p # rest) d g =
     (case Paint p d (world g) of
        (Panics, d', gw) \<Rightarrow> (Panics, d', \<lparr>world = gw, calls = calls g @ [PaintCall (addr p)]\<rparr>)
      | (Returns (Some err), d', gw) \<Rightarrow>
          (Returns (Some (Wrap err ''failed to paint'')), d',
           \<lparr>world = gw, calls = calls g @ [PaintCall (addr p)]\<rparr>)
      | (Returns None, d', gw) \<Rightarrow>
          paint_range rest d' \<lparr>world = gw, calls = calls g @ [PaintCall (addr p)]\<rparr>)"

definition paint ::
  "'w Scene \<Rightarrow> Sdl2Draw \<Rightarrow> 'w game \<Rightarrow> go_error option outcome \<times> Sdl2Draw \<times> 'w game" where
  "paint s d g =
     (case Present (paint_range (active s)) d (g\<lparr>calls := calls g @ [PresentCall]\<rparr>) of
        (Panics, d', g') \<Rightarrow> (Panics, d', g')
      | (Returns (Some err), d', g') \<Rightarrow> (Returns (Some (Wrap err ''failed to present'')), d', g')
      | (Returns None, d', g') \<Rightarrow> (Returns None, d', g'))"

subsection \<open>Run: the loop of the goroutine\<close>

text \<open>
  The process as the loop sees it: the scene, its drawer and its objects; the events the
  channel \<open>events\<close> still has to deliver and the number of ticks the ticker still has to;
  the errors sent on \<open>errc\<close>, oldest first; and whether the process still runs, has left
  through \<open>os.Exit\<close>, or has died of a panic.
\<close>

datatype status = Running | Exited int | Crashed

record 'w process =
  scene :: "'w Scene"
  drawer :: Sdl2Draw
  game :: "'w game"
  events :: "sdl_event list"
  ticker :: nat
  errc :: "go_error list"
  status :: status

text \<open>The range over the objects in the case \<open>e := <-events\<close>.\<close>

fun handle_range :: "sdl_event \<Rightarrow> 'w Paintable list \<Rightarrow> 'w game \<Rightarrow> unit outcome \<times> 'w game" where
  "handle_range e [] g = (Returns (), g)"
| "handle_range e (p # rest) g =
     (case HandleEvent p of
        None \<Rightarrow> handle_range e rest g
      | Some hdl \<Rightarrow>
          (case hdl e (world g) of
             (Panics, gw) \<Rightarrow>
               (Panics, \<lparr>world = gw, calls = calls g @ [HandleEventCall (addr p) e]\<rparr>)
           | (Returns u, gw) \<Rightarrow>
               handle_range e rest \<lparr>world = gw, calls = calls g @ [HandleEventCall (addr p) e]\<rparr>))"

definition on_event :: "sdl_event \<Rightarrow> 'w process \<Rightarrow> 'w process" where
  "on_event e p =
     (case handle_range e (active (scene p)) (game p) of
        (Panics, g) \<Rightarrow> p\<lparr>game := g, status := Crashed\<rparr>
      | (Returns u, g) \<Rightarrow>
          (if handleExit e then p\<lparr>game := g, status := Exited 0\<rparr> else p\<lparr>game := g\<rparr>))"

definition on_tick :: "'w process \<Rightarrow> 'w process" where
  "on_tick p =
     (case update (scene p) (game p) of
        (Panics, g) \<Rightarrow> p\<lparr>game := g, status := Crashed\<rparr>
      | (Returns st, g) \<Rightarrow>
          (let s' = (scene p)\<lparr>state := st\<rparr> in
             (case paint s' (drawer p) g of
                (Panics, d, g') \<Rightarrow> p\<lparr>scene := s', drawer := d, game := g', status := Crashed\<rparr>
              | (Returns (Some err), d, g') \<Rightarrow>
                  p\<lparr>scene := s', drawer := d, game := g', errc := errc p @ [err]\<rparr>
              | (Returns None, d, g') \<Rightarrow> p\<lparr>scene := s', drawer := d, game := g'\<rparr>)))"

text \<open>
  One iteration of the \<open>for\<close>: the \<open>select\<close> takes one of its two cases, and the case
  receives from its channel. A case whose channel has nothing to deliver cannot be
  taken: \<open>None\<close>.
\<close>

datatype select_case = RecvEvent | RecvTick

fun iteration :: "select_case \<Rightarrow> 'w process \<Rightarrow> 'w process option" where
  "iteration RecvEvent p =
     (case events p of
        [] \<Rightarrow> None
      | e # rest \<Rightarrow> Some (on_event e (p\<lparr>events := rest\<rparr>)))"
| "iteration RecvTick p =
     (case ticker p of
        0 \<Rightarrow> None
      | Suc n \<Rightarrow> Some (on_tick (p\<lparr>ticker := n\<rparr>)))"

text \<open>
  The loop, along the cases its selects take. It has no exit of its own: it ends with the
  process. The run stops where the next case cannot be taken.
\<close>

fun Run :: "select_case list \<Rightarrow> 'w process \<Rightarrow> 'w process" where
  "Run [] p = p"
| "Run (c # cs) p =
     (if status p \<noteq> Running then p
      else (case iteration c p of None \<Rightarrow> p | Some p' \<Rightarrow> Run cs p'))"

subsection \<open>The calls of one iteration, by kind\<close>




section \<open>Example inputs\<close>

text \<open>
  A renderer with no call behind it that answers every call from a table; a drawer of
  500 by 500 pixels over it; a directory with one texture and one font.
\<close>

definition answering :: "(renderer_call \<Rightarrow> go_error option) \<Rightarrow> renderer" where
  "answering tbl =
     \<lparr>history = [], fails = (\<lambda>past c. tbl c),
      created = (\<lambda>past surface. \<lparr>texture_handle = length past, Destroy = None\<rparr>)\<rparr>"

definition example_drawer :: "(renderer_call \<Rightarrow> go_error option) \<Rightarrow> Sdl2Draw" where
  "example_drawer tbl =
     \<lparr>r = answering tbl, fonts = Map.empty, textures = Map.empty, mainFont = ''Ubuntu.ttf'',
      w = 500, h = 500\<rparr>"

definition example_font :: Font where
  "example_font = \<lparr>font_handle = 7, RenderUTF8Solid = (\<lambda>txt c. Inr (Surface 1))\<rparr>"

definition example_files :: filesystem where
  "example_files =
     \<lparr>ReadDir = (\<lambda>path. if path = ''res/fonts'' then Inr [\<lparr>Name = ''Ubuntu.ttf'', IsDir = False\<rparr>]
                         else Inr [\<lparr>Name = ''apple.png'', IsDir = False\<rparr>]),
      Load = (\<lambda>path. Inr (Surface 0)),
      OpenFont = (\<lambda>path size. Inr example_font)\<rparr>"

text \<open>
  An object over a world that counts: its \<open>Paint\<close> returns the given result and leaves
  drawer and world alone; its \<open>Update\<close>, when it has one, reports the given state and
  adds one to the world; its \<open>HandleEvent\<close> adds a hundred.
\<close>

definition example_object :: "nat \<Rightarrow> go_error option \<Rightarrow> GameState option \<Rightarrow> nat Paintable" where
  "example_object a painted reported =
     \<lparr>addr = a,
      Paint = (\<lambda>d gw. (Returns painted, d, gw)),
      Update = map_option (\<lambda>st gw. (Returns st, Suc gw)) reported,
      HandleEvent = Some (\<lambda>e gw. (Returns (), gw + 100))\<rparr>"

definition example_package :: "nat object_package" where
  "example_package =
     \<lparr>NewApple = example_object 1 None None,
      NewScore = example_object 2 None None,
      NewSnake = (\<lambda>apple score scrn. example_object 3 None (Some DeadSnake)),
      DeadScreen = (\<lambda>score scrn. example_object 4 None None),
      WelcomeText = (\<lambda>scrn snake. example_object 5 None (Some SnakeRunning))\<rparr>"

definition example_process :: "nat Scene \<Rightarrow> (renderer_call \<Rightarrow> go_error option) \<Rightarrow> nat process" where
  "example_process s tbl =
     \<lparr>scene = s, drawer = example_drawer tbl, game = \<lparr>world = 0, calls = []\<rparr>,
      events = [KeyboardEvent PRESSED K_ESCAPE], ticker = 1, errc = [], status = Running\<rparr>"

section \<open>Properties of package grafio\<close>

subsection \<open>The width and the height are never written\<close>

lemma SetMainFont_dims: "w (snd (SetMainFont name s)) = w s \<and> h (snd (SetMainFont name s)) = h s"
  by (simp add: SetMainFont_def split: option.splits)

lemma ColorRect_dims: "w (snd (ColorRect x y wd ht rgba s)) = w s \<and> h (snd (ColorRect x y wd ht rgba s)) = h s"
  by (simp add: ColorRect_def split: RGBA.splits option.splits prod.splits)

lemma TextureRect_dims: "w (snd (TextureRect x y wd ht t s)) = w s \<and> h (snd (TextureRect x y wd ht t s)) = h s"
  by (simp add: TextureRect_def split: option.splits prod.splits)

lemma Background_dims: "w (snd (Background rgba s)) = w s \<and> h (snd (Background rgba s)) = h s"
  by (simp add: Background_def split: RGBA.splits option.splits prod.splits)

lemma Text_dims: "w (snd (Text sizeCal txt opts s)) = w s \<and> h (snd (Text sizeCal txt opts s)) = h s"
  by (simp add: Text_def Let_def split: RGBA.splits option.splits prod.splits sum.splits)

lemma load_textures_dims: "w (snd (load_textures fs path fis s)) = w s \<and> h (snd (load_textures fs path fis s)) = h s"
  by (induction fis arbitrary: s) (simp_all split: sum.splits prod.splits)

lemma load_fonts_dims: "w (snd (load_fonts fs path fis s)) = w s \<and> h (snd (load_fonts fs path fis s)) = h s"
  by (induction fis arbitrary: s) (simp_all split: sum.splits prod.splits)

lemma LoadResources_dims: "w (snd (LoadResources fs fp tp s)) = w s \<and> h (snd (LoadResources fs fp tp s)) = h s"
proof (cases "ReadDir fs tp")
  case (Inl err)
  then show ?thesis by (simp add: LoadResources_def)
next
  case (Inr listing)
  obtain e1 s1 where lt: "load_textures fs tp listing s = (e1, s1)"
    by (cases "load_textures fs tp listing s")
  have s1: "w s1 = w s \<and> h s1 = h s"
    using load_textures_dims[of fs tp listing s] lt by simp
  show ?thesis
    using Inr lt s1 load_fonts_dims[of fs fp _ s1]
    by (simp add: LoadResources_def split: option.splits sum.splits)
qed

lemma Present_dims:
  assumes "\<And>d c. w (fst (snd (f d c))) = w d \<and> h (fst (snd (f d c))) = h d"
  shows "w (fst (snd (Present f s c))) = w s \<and> h (fst (snd (Present f s c))) = h s"
proof -
  obtain e1 rd where clr: "invoke Clear (r s) = (e1, rd)" by (cases "invoke Clear (r s)")
  obtain e2 s1 where bg: "Background ColorWhite (s\<lparr>r := rd\<rparr>) = (e2, s1)"
    by (cases "Background ColorWhite (s\<lparr>r := rd\<rparr>)")
  obtain res s2 c2 where body: "f s1 c = (res, s2, c2)" by (cases "f s1 c")
  have s1: "w s1 = w s \<and> h s1 = h s"
    using Background_dims[of ColorWhite "s\<lparr>r := rd\<rparr>"] bg by simp
  have s2: "w s2 = w s \<and> h s2 = h s"
    using assms[of s1 c] body s1 by simp
  show ?thesis
    using clr bg body s1 s2
    by (simp add: Present_def split: option.splits outcome.splits)
qed

lemma run_dims:
  "w (snd (run_op sizeCal x s)) = w s \<and> h (snd (run_op sizeCal x s)) = h s"
  "w (snd (run_ops sizeCal xs s)) = w s \<and> h (snd (run_ops sizeCal xs s)) = h s"
proof (induction sizeCal x s and sizeCal xs s rule: run_op_run_ops.induct)
  case (6 sizeCal body res s)
  let ?f = "\<lambda>s' (c :: unit). case run_ops sizeCal body s' of
                        (panicked, s'') \<Rightarrow> (if panicked then Panics else Returns res, s'', c)"
  have "\<And>d c. w (fst (snd (?f d c))) = w d \<and> h (fst (snd (?f d c))) = h d"
    using 6 by (simp add: split_beta)
  from Present_dims[of ?f s "()", OF this] show ?case
    by (simp add: split_beta)
next
  case (10 sizeCal x xs s)
  then show ?case by (auto split: prod.splits bool.splits)
qed (simp_all add: SetMainFont_dims ColorRect_dims TextureRect_dims Background_dims Text_dims
      LoadResources_dims destroy_def split_beta)

text \<open>
  C10: \<open>ScreenWidth\<close> and \<open>ScreenHeight\<close> return the width and the height that were passed
  to \<open>NewSdl2Draw\<close>, on the drawer it returns and after any sequence of calls of the
  drawer's methods (drawing, text, presenting with any body of such calls, loading
  resources, selecting a font, destroying): none of them writes the fields \<open>w\<close> and \<open>h\<close>.
\<close>

theorem screen_dimensions_fixed:
  assumes "NewSdl2Draw prepare font wd ht = Inr s"
  shows "ScreenWidth s = wd \<and> ScreenHeight s = ht
       \<and> ScreenWidth (snd (run_ops sizeCal ops s)) = wd
       \<and> ScreenHeight (snd (run_ops sizeCal ops s)) = ht"
proof -
  from assms have "w s = wd \<and> h s = ht"
    by (auto simp: NewSdl2Draw_def split: sum.splits)
  with run_dims(2)[of sizeCal ops s] show ?thesis
    by (simp add: ScreenWidth_def ScreenHeight_def)
qed

theorem screen_dimensions_fixed_witness:
  "NewSdl2Draw (\<lambda>wd ht. Inr (answering (\<lambda>c. None))) ''Ubuntu.ttf'' 500 500
     = Inr (example_drawer (\<lambda>c. None))
   \<and> ScreenWidth (snd (run_ops (\<lambda>size (cof :: nat). size)
        [DoLoadResources example_files ''res/fonts'' ''res/textures'',
         DoPresent [DoText ''Score'' \<lparr>Size = 12, XCof = 1, YCof = 2, Color = ColorBlack, Align = Right\<rparr>,
                    DoColorRect 0 0 10 10 ColorGreen,
                    DoTextureRect 0 0 10 10 ''apple.png''] None,
         DoSetMainFont ''Arial.ttf'', DoBackground ColorWhite, DoDestroy [''apple.png'']]
        (example_drawer (\<lambda>c. None)))) = 500
   \<and> ScreenHeight (snd (run_ops (\<lambda>size (cof :: nat). size)
        [DoLoadResources example_files ''res/fonts'' ''res/textures'',
         DoPresent [DoText ''Score'' \<lparr>Size = 12, XCof = 1, YCof = 2, Color = ColorBlack, Align = Right\<rparr>,
                    DoColorRect 0 0 10 10 ColorGreen,
                    DoTextureRect 0 0 10 10 ''apple.png''] None,
         DoSetMainFont ''Arial.ttf'', DoBackground ColorWhite, DoDestroy [''apple.png'']]
        (example_drawer (\<lambda>c. None)))) = 500"
proof -
  have new: "NewSdl2Draw (\<lambda>wd ht. Inr (answering (\<lambda>c. None))) ''Ubuntu.ttf'' 500 500
     = Inr (example_drawer (\<lambda>c. None))"
    by (simp add: NewSdl2Draw_def example_drawer_def)
  from screen_dimensions_fixed[OF new] new show ?thesis by blast
qed

subsection \<open>SetMainFont\<close>

text \<open>
  C9: \<open>SetMainFont\<close> returns an error exactly when the named font is not a key of the
  map of loaded fonts; then the drawer, its main font included, is as it was. When the
  font is loaded the call returns nil and the main font is the named one.
\<close>

theorem SetMainFont_loaded_iff:
  "(fst (SetMainFont name s) \<noteq> None \<longleftrightarrow> name \<notin> dom (fonts s))
   \<and> snd (SetMainFont name s) = (if name \<in> dom (fonts s) then s\<lparr>mainFont := name\<rparr> else s)
   \<and> mainFont (snd (SetMainFont name s))
       = (if fst (SetMainFont name s) = None then name else mainFont s)"
  by (auto simp: SetMainFont_def split: option.splits)

theorem SetMainFont_loaded_iff_witness:
  "SetMainFont ''Arial.ttf'' (example_drawer (\<lambda>c. None))
     = (Some (ErrorString ''font Arial.ttf is not loaded''), example_drawer (\<lambda>c. None))
   \<and> fst (SetMainFont ''Arial.ttf''
            ((example_drawer (\<lambda>c. None))\<lparr>fonts := [''Arial.ttf'' \<mapsto> example_font]\<rparr>)) = None
   \<and> mainFont (snd (SetMainFont ''Arial.ttf''
            ((example_drawer (\<lambda>c. None))\<lparr>fonts := [''Arial.ttf'' \<mapsto> example_font]\<rparr>)))
       = ''Arial.ttf''"
  using SetMainFont_loaded_iff[of "''Arial.ttf''" "example_drawer (\<lambda>c. None)"]
    SetMainFont_loaded_iff[of "''Arial.ttf''"
      "(example_drawer (\<lambda>c. None))\<lparr>fonts := [''Arial.ttf'' \<mapsto> example_font]\<rparr>"]
  by (simp add: example_drawer_def SetMainFont_def)

subsection \<open>Present\<close>

lemma Present_clear_fails:
  "invoke Clear (r s) = (Some err, rd) \<Longrightarrow>
   Present f s c = (Returns (Some (Wrap err ''could not clear the renderer'')), s\<lparr>r := rd\<rparr>, c)"
  by (simp add: Present_def)

lemma Present_background_fails:
  "invoke Clear (r s) = (None, rd) \<Longrightarrow> Background ColorWhite (s\<lparr>r := rd\<rparr>) = (Some err, s1) \<Longrightarrow>
   Present f s c = (Returns (Some (Wrap err ''could not set the background'')), s1, c)"
  by (simp add: Present_def)

lemma Present_begun:
  "invoke Clear (r d) = (None, rd) \<Longrightarrow> Background ColorWhite (d\<lparr>r := rd\<rparr>) = (None, d1) \<Longrightarrow>
   Present f d c =
     (case f d1 c of
        (Panics, d2, c2) \<Rightarrow> (Panics, d2, c2)
      | (Returns (Some err), d2, c2) \<Rightarrow>
          (Returns (Some (Wrap err ''could not execute user given function'')), d2, c2)
      | (Returns None, d2, c2) \<Rightarrow>
          (Returns None, d2\<lparr>r := (r d2)\<lparr>history := history (r d2) @ [RendererPresent]\<rparr>\<rparr>, c2))"
  by (simp add: Present_def invoke_def split: prod.splits outcome.splits option.splits)

lemma Background_white_history:
  "Background ColorWhite s = (res, s1) \<Longrightarrow>
     (res = None \<longrightarrow> history (r s1) = history (r s) @ [SetDrawColor 255 255 255 255, FillRect None])
   \<and> (res \<noteq> None \<longrightarrow> history (r s1) = history (r s) @ [SetDrawColor 255 255 255 255]
        \<or> history (r s1) = history (r s) @ [SetDrawColor 255 255 255 255, FillRect None])"
  by (auto simp: Background_def ColorWhite_def invoke_def split: option.splits prod.splits)

text \<open>
  C2: for every body \<open>f\<close>, \<open>Present\<close> clears the frame, then draws the white background,
  then calls \<open>f\<close> on the drawer so prepared, and calls the renderer's \<open>Present\<close> last, on
  the drawer as \<open>f\<close> left it, only when the three returned nil. When the clear, the
  background or \<open>f\<close> returns an error, \<open>Present\<close> returns that error wrapped and makes no
  further call on the renderer; when \<open>f\<close> panics, so does \<open>Present\<close>.
\<close>

theorem Present_flips_only_on_success:
  assumes "invoke Clear (r s) = (cleared, rd)"
    and "Background ColorWhite (s\<lparr>r := rd\<rparr>) = (drawn, s1)"
    and "f s1 c = (res, s2, c2)"
  shows "history rd = history (r s) @ [Clear]
     \<and> (cleared = Some err \<longrightarrow>
          Present f s c = (Returns (Some (Wrap err ''could not clear the renderer'')), s\<lparr>r := rd\<rparr>, c))
     \<and> (cleared = None \<and> drawn = Some err \<longrightarrow>
          Present f s c = (Returns (Some (Wrap err ''could not set the background'')), s1, c)
          \<and> RendererPresent \<notin> set (drop (length (history (r s))) (history (r s1))))
     \<and> (cleared = None \<and> drawn = None \<longrightarrow>
          history (r s1) = history (r s) @ [Clear, SetDrawColor 255 255 255 255, FillRect None]
          \<and> (res = Panics \<longrightarrow> Present f s c = (Panics, s2, c2))
          \<and> (res = Returns (Some err) \<longrightarrow>
               Present f s c =
                 (Returns (Some (Wrap err ''could not execute user given function'')), s2, c2))
          \<and> (res = Returns None \<longrightarrow>
               Present f s c =
                 (Returns None, s2\<lparr>r := (r s2)\<lparr>history := history (r s2) @ [RendererPresent]\<rparr>\<rparr>, c2)))"
proof -
  have h1: "history rd = history (r s) @ [Clear]"
    using assms(1) by (auto simp: invoke_def)
  have clear_fails: "cleared = Some err \<longrightarrow>
          Present f s c = (Returns (Some (Wrap err ''could not clear the renderer'')), s\<lparr>r := rd\<rparr>, c)"
    using assms(1) by (simp add: Present_clear_fails)
  have background_fails: "cleared = None \<and> drawn = Some err \<longrightarrow>
          Present f s c = (Returns (Some (Wrap err ''could not set the background'')), s1, c)
          \<and> RendererPresent \<notin> set (drop (length (history (r s))) (history (r s1)))"
    using assms(1,2) h1 Background_white_history[OF assms(2)]
    by (auto simp: Present_background_fails)
  have begun: "cleared = None \<and> drawn = None \<longrightarrow>
          history (r s1) = history (r s) @ [Clear, SetDrawColor 255 255 255 255, FillRect None]
          \<and> (res = Panics \<longrightarrow> Present f s c = (Panics, s2, c2))
          \<and> (res = Returns (Some err) \<longrightarrow>
               Present f s c =
                 (Returns (Some (Wrap err ''could not execute user given function'')), s2, c2))
          \<and> (res = Returns None \<longrightarrow>
               Present f s c =
                 (Returns None, s2\<lparr>r := (r s2)\<lparr>history := history (r s2) @ [RendererPresent]\<rparr>\<rparr>, c2))"
    using assms h1 Background_white_history[OF assms(2)]
    by (auto simp: Present_begun)
  from h1 clear_fails background_fails begun show ?thesis by blast
qed

theorem Present_flips_only_on_success_witness:
  "fst (Present (\<lambda>d (c :: nat). (Returns None, d, Suc c))
          (example_drawer (\<lambda>c. if c = Clear then Some (ErrorString ''lost'') else None)) 0)
     = Returns (Some (Wrap (ErrorString ''lost'') ''could not clear the renderer''))
   \<and> fst (Present (\<lambda>d (c :: nat). (Returns None, d, Suc c))
          (example_drawer (\<lambda>c. if c = FillRect None then Some (ErrorString ''lost'') else None)) 0)
     = Returns (Some (Wrap (Wrap (ErrorString ''lost'') ''couldn't fill rect'')
                           ''could not set the background''))
   \<and> Present (\<lambda>d (c :: nat). (Returns (Some (ErrorString ''no texture'')), d, Suc c))
          (example_drawer (\<lambda>c. None)) 0
     = (Returns (Some (Wrap (ErrorString ''no texture'') ''could not execute user given function'')),
        (example_drawer (\<lambda>c. None))
          \<lparr>r := (answering (\<lambda>c. None))
                  \<lparr>history := [Clear, SetDrawColor 255 255 255 255, FillRect None]\<rparr>\<rparr>, 1)
   \<and> Present (\<lambda>d (c :: nat). (Returns None, d, Suc c)) (example_drawer (\<lambda>c. None)) 0
     = (Returns None,
        (example_drawer (\<lambda>c. None))
          \<lparr>r := (answering (\<lambda>c. None))
                  \<lparr>history := [Clear, SetDrawColor 255 255 255 255, FillRect None,
                               RendererPresent]\<rparr>\<rparr>, 1)"
proof -
  let ?ok = "\<lambda>d (c :: nat). (Returns None :: go_error option outcome, d :: Sdl2Draw, Suc c)"
  let ?bad = "\<lambda>d (c :: nat). (Returns (Some (ErrorString ''no texture'')), d :: Sdl2Draw, Suc c)"
  let ?t1 = "\<lambda>c. if c = Clear then Some (ErrorString ''lost'') else None"
  let ?t2 = "\<lambda>c. if c = FillRect None then Some (ErrorString ''lost'') else None"
  let ?t3 = "\<lambda>c :: renderer_call. None :: go_error option"
  let ?white = "[Clear, SetDrawColor 255 255 255 255, FillRect None]"
  have c1: "invoke Clear (r (example_drawer ?t1))
              = (Some (ErrorString ''lost''), (answering ?t1)\<lparr>history := [Clear]\<rparr>)"
    by (simp add: invoke_def example_drawer_def answering_def)
  have c2: "invoke Clear (r (example_drawer ?t2)) = (None, (answering ?t2)\<lparr>history := [Clear]\<rparr>)"
    by (simp add: invoke_def example_drawer_def answering_def)
  have c3: "invoke Clear (r (example_drawer ?t3)) = (None, (answering ?t3)\<lparr>history := [Clear]\<rparr>)"
    by (simp add: invoke_def example_drawer_def answering_def)
  have b1: "Background ColorWhite ((example_drawer ?t1)\<lparr>r := (answering ?t1)\<lparr>history := [Clear]\<rparr>\<rparr>)
              = (None, (example_drawer ?t1)\<lparr>r := (answering ?t1)\<lparr>history := ?white\<rparr>\<rparr>)"
    by (simp add: Background_def ColorWhite_def invoke_def example_drawer_def answering_def)
  have b2: "Background ColorWhite ((example_drawer ?t2)\<lparr>r := (answering ?t2)\<lparr>history := [Clear]\<rparr>\<rparr>)
              = (Some (Wrap (ErrorString ''lost'') ''couldn't fill rect''),
                 (example_drawer ?t2)\<lparr>r := (answering ?t2)\<lparr>history := ?white\<rparr>\<rparr>)"
    by (simp add: Background_def ColorWhite_def invoke_def example_drawer_def answering_def)
  have b3: "Background ColorWhite ((example_drawer ?t3)\<lparr>r := (answering ?t3)\<lparr>history := [Clear]\<rparr>\<rparr>)
              = (None, (example_drawer ?t3)\<lparr>r := (answering ?t3)\<lparr>history := ?white\<rparr>\<rparr>)"
    by (simp add: Background_def ColorWhite_def invoke_def example_drawer_def answering_def)
  have f1: "?ok ((example_drawer ?t1)\<lparr>r := (answering ?t1)\<lparr>history := ?white\<rparr>\<rparr>) 0
              = (Returns None, (example_drawer ?t1)\<lparr>r := (answering ?t1)\<lparr>history := ?white\<rparr>\<rparr>, 1)"
    by simp
  have f2: "?ok ((example_drawer ?t2)\<lparr>r := (answering ?t2)\<lparr>history := ?white\<rparr>\<rparr>) 0
              = (Returns None, (example_drawer ?t2)\<lparr>r := (answering ?t2)\<lparr>history := ?white\<rparr>\<rparr>, 1)"
    by simp
  have f3: "?bad ((example_drawer ?t3)\<lparr>r := (answering ?t3)\<lparr>history := ?white\<rparr>\<rparr>) 0
              = (Returns (Some (ErrorString ''no texture'')),
                 (example_drawer ?t3)\<lparr>r := (answering ?t3)\<lparr>history := ?white\<rparr>\<rparr>, 1)"
    by simp
  have f4: "?ok ((example_drawer ?t3)\<lparr>r := (answering ?t3)\<lparr>history := ?white\<rparr>\<rparr>) 0
              = (Returns None, (example_drawer ?t3)\<lparr>r := (answering ?t3)\<lparr>history := ?white\<rparr>\<rparr>, 1)"
    by simp
  from Present_flips_only_on_success[where f = "?ok" and c = 0, OF c1 b1 f1,
         where err = "ErrorString ''lost''"]
    Present_flips_only_on_success[where f = "?ok" and c = 0, OF c2 b2 f2,
         where err = "Wrap (ErrorString ''lost'') ''couldn't fill rect''"]
    Present_flips_only_on_success[where f = "?bad" and c = 0, OF c3 b3 f3,
         where err = "ErrorString ''no texture''"]
    Present_flips_only_on_success[where f = "?ok" and c = 0, OF c3 b3 f4]
  show ?thesis by (simp add: example_drawer_def answering_def)
qed

section \<open>Properties of package scene\<close>

subsection \<open>update\<close>

lemma update_range_quiet_append:
  "update_range cur pre g = (Returns cur, g1) \<Longrightarrow>
   update_range cur (pre @ rest) g = update_range cur rest g1"
proof (induction pre arbitrary: g)
  case Nil
  then show ?case by simp
next
  case (Cons p pre)
  show ?case
  proof (cases "Update p")
    case None
    with Cons show ?thesis by simp
  next
    case (Some upd)
    obtain res gw where u: "upd (world g) = (res, gw)" by (cases "upd (world g)")
    show ?thesis
    proof (cases res)
      case Panics
      with Cons.prems Some u show ?thesis by simp
    next
      case (Returns st)
      with Cons.prems Some u have "st = cur" by (simp split: if_splits)
      with Cons Some u Returns show ?thesis by simp
    qed
  qed
qed

lemma update_range_quiet_calls:
  "update_range cur pre g = (Returns cur, g1) \<Longrightarrow>
   calls g1 = calls g @ map (\<lambda>p. UpdateCall (addr p)) (filter (\<lambda>p. Update p \<noteq> None) pre)"
proof (induction pre arbitrary: g)
  case Nil
  then show ?case by simp
next
  case (Cons p pre)
  show ?case
  proof (cases "Update p")
    case None
    with Cons show ?thesis by simp
  next
    case (Some upd)
    obtain res gw where u: "upd (world g) = (res, gw)" by (cases "upd (world g)")
    show ?thesis
    proof (cases res)
      case Panics
      with Cons.prems Some u show ?thesis by simp
    next
      case (Returns st)
      with Cons.prems Some u have "st = cur" by (simp split: if_splits)
      with Cons.prems Some u Returns
      have "update_range cur pre \<lparr>world = gw, calls = calls g @ [UpdateCall (addr p)]\<rparr> = (Returns cur, g1)"
        by simp
      from Cons.IH[OF this] Some show ?thesis by simp
    qed
  qed
qed

lemma update_range_reporter:
  "fst (update_range cur objs g) = Returns st \<Longrightarrow> st \<noteq> cur \<Longrightarrow>
   \<exists>pre ob post upd g1 gw. objs = pre @ ob # post
      \<and> update_range cur pre g = (Returns cur, g1)
      \<and> Update ob = Some upd \<and> upd (world g1) = (Returns st, gw)"
proof (induction objs arbitrary: g)
  case Nil
  then show ?case by simp
next
  case (Cons p objs)
  show ?case
  proof (cases "Update p")
    case None
    with Cons.prems have "fst (update_range cur objs g) = Returns st" by simp
    from Cons.IH[OF this Cons.prems(2)]
    obtain pre ob post upd g1 gw where
      *: "objs = pre @ ob # post" "update_range cur pre g = (Returns cur, g1)"
         "Update ob = Some upd" "upd (world g1) = (Returns st, gw)" by blast
    have "p # objs = (p # pre) @ ob # post" using * by simp
    moreover have "update_range cur (p # pre) g = (Returns cur, g1)" using * None by simp
    ultimately show ?thesis using * by blast
  next
    case (Some upd)
    obtain res gw where u: "upd (world g) = (res, gw)" by (cases "upd (world g)")
    show ?thesis
    proof (cases res)
      case Panics
      with Cons.prems Some u show ?thesis by simp
    next
      case (Returns st')
      show ?thesis
      proof (cases "st' = cur")
        case True
        let ?g = "\<lparr>world = gw, calls = calls g @ [UpdateCall (addr p)]\<rparr>"
        from True Cons.prems Some u Returns
        have "fst (update_range cur objs ?g) = Returns st" by simp
        from Cons.IH[OF this Cons.prems(2)]
        obtain pre ob post upd' g1 gw' where
          *: "objs = pre @ ob # post" "update_range cur pre ?g = (Returns cur, g1)"
             "Update ob = Some upd'" "upd' (world g1) = (Returns st, gw')" by blast
        have "p # objs = (p # pre) @ ob # post" using * by simp
        moreover have "update_range cur (p # pre) g = (Returns cur, g1)"
          using * Some u Returns True by simp
        ultimately show ?thesis using * by blast
      next
        case False
        with Cons.prems Some u Returns have "st' = st" by simp
        have "p # objs = [] @ p # objs" by simp
        moreover have "update_range cur [] g = (Returns cur, g)" by simp
        ultimately show ?thesis using Some u Returns \<open>st' = st\<close> by blast
      qed
    qed
  qed
qed

text \<open>
  C1: \<open>update\<close> short-circuits. When the active objects are \<open>pre\<close>, then \<open>ob\<close>, then
  \<open>post\<close>, every \<open>Update\<close> among \<open>pre\<close> has returned the current state, and the \<open>Update\<close>
  of \<open>ob\<close> returns another state \<open>st\<close>, then \<open>update\<close> returns \<open>st\<close> at once: the calls
  of that tick are the \<open>Update\<close>s of \<open>pre\<close>, in order, and that of \<open>ob\<close>, and no object
  of \<open>post\<close> is called. And \<open>update\<close> returns a state other than the current one only
  if an object reported it so; otherwise it returns the current state.
\<close>

theorem update_short_circuits:
  "(active s = pre @ ob # post \<and> update_range (state s) pre g = (Returns (state s), g1)
      \<and> Update ob = Some upd \<and> upd (world g1) = (Returns st, gw) \<and> st \<noteq> state s
    \<longrightarrow> update s g =
          (Returns st,
           \<lparr>world = gw,
            calls = calls g @ map (\<lambda>p. UpdateCall (addr p)) (filter (\<lambda>p. Update p \<noteq> None) pre)
                      @ [UpdateCall (addr ob)]\<rparr>))
   \<and> (fst (update s g) = Returns st' \<and> st' \<noteq> state s
    \<longrightarrow> (\<exists>pre' ob' post' upd' g1' gw'. active s = pre' @ ob' # post'
           \<and> update_range (state s) pre' g = (Returns (state s), g1')
           \<and> Update ob' = Some upd' \<and> upd' (world g1') = (Returns st', gw')))"
proof (intro conjI impI)
  assume a: "active s = pre @ ob # post \<and> update_range (state s) pre g = (Returns (state s), g1)
      \<and> Update ob = Some upd \<and> upd (world g1) = (Returns st, gw) \<and> st \<noteq> state s"
  then have "update s g = update_range (state s) (ob # post) g1"
    by (simp add: update_def update_range_quiet_append)
  with a update_range_quiet_calls[of "state s" pre g g1] show "update s g =
          (Returns st,
           \<lparr>world = gw,
            calls = calls g @ map (\<lambda>p. UpdateCall (addr p)) (filter (\<lambda>p. Update p \<noteq> None) pre)
                      @ [UpdateCall (addr ob)]\<rparr>)"
    by simp
next
  assume "fst (update s g) = Returns st' \<and> st' \<noteq> state s"
  then show "\<exists>pre' ob' post' upd' g1' gw'. active s = pre' @ ob' # post'
           \<and> update_range (state s) pre' g = (Returns (state s), g1')
           \<and> Update ob' = Some upd' \<and> upd' (world g1') = (Returns st', gw')"
    using update_range_reporter[of "state s" "active s" g st'] by (simp add: update_def)
qed

theorem update_short_circuits_witness:
  "update \<lparr>state = MenuScreen,
           paints = [MenuScreen \<mapsto> [example_object 1 None None,
                                   example_object 2 None (Some MenuScreen),
                                   example_object 3 None (Some SnakeRunning),
                                   example_object 4 None (Some DeadSnake)]]\<rparr>
          \<lparr>world = 0, calls = []\<rparr>
     = (Returns SnakeRunning, \<lparr>world = 2, calls = [UpdateCall 2, UpdateCall 3]\<rparr>)
   \<and> (\<exists>pre ob post upd g1 gw.
         [example_object 1 None None, example_object 2 None (Some MenuScreen),
          example_object 3 None (Some SnakeRunning), example_object 4 None (Some DeadSnake)]
           = pre @ ob # post
         \<and> update_range MenuScreen pre \<lparr>world = 0, calls = []\<rparr> = (Returns MenuScreen, g1)
         \<and> Update ob = Some upd \<and> upd (world g1) = (Returns SnakeRunning, gw))"
  using update_short_circuits
    [of "\<lparr>state = MenuScreen,
           paints = [MenuScreen \<mapsto> [example_object 1 None None,
                                   example_object 2 None (Some MenuScreen),
                                   example_object 3 None (Some SnakeRunning),
                                   example_object 4 None (Some DeadSnake)]]\<rparr>"
        "[example_object 1 None None, example_object 2 None (Some MenuScreen)]"
        "example_object 3 None (Some SnakeRunning)"
        "[example_object 4 None (Some DeadSnake)]"
        "\<lparr>world = 0, calls = []\<rparr>"
        "\<lparr>world = 1, calls = [UpdateCall 2]\<rparr>"
        "\<lambda>gw. (Returns SnakeRunning, Suc gw)" SnakeRunning 2 SnakeRunning]
  by (simp add: active_def example_object_def)

text \<open>
  C8: in a state that the registry has no entry for, \<open>update\<close> returns that state and
  calls nothing, and the body that \<open>paint\<close> hands to \<open>Present\<close> paints no object and
  returns nil; the registry that \<open>New\<close> builds has no entry for any state but its three.
\<close>

theorem missing_state_is_empty:
  "(state s \<notin> dom (paints s) \<longrightarrow>
      active s = [] \<and> update s g = (Returns (state s), g)
      \<and> paint_range (active s) d g = (Returns None, d, g))
   \<and> (st \<notin> {MenuScreen, SnakeRunning, DeadSnake} \<longrightarrow> st \<notin> dom (paints (fst (New object d'))))"
  by (auto simp: update_def active_def New_def Let_def)

theorem missing_state_is_empty_witness:
  "OtherState 7 \<notin> dom (paints (fst (New example_package (example_drawer (\<lambda>c. None)))))
   \<and> update ((fst (New example_package (example_drawer (\<lambda>c. None))))\<lparr>state := OtherState 7\<rparr>)
        \<lparr>world = 0, calls = []\<rparr>
      = (Returns (OtherState 7), \<lparr>world = 0, calls = []\<rparr>)
   \<and> paint_range
        (active ((fst (New example_package (example_drawer (\<lambda>c. None))))\<lparr>state := OtherState 7\<rparr>))
        (example_drawer (\<lambda>c. None)) \<lparr>world = 0, calls = []\<rparr>
      = (Returns None, example_drawer (\<lambda>c. None), \<lparr>world = 0, calls = []\<rparr>)"
proof -
  let ?s = "(fst (New example_package (example_drawer (\<lambda>c. None))))\<lparr>state := OtherState 7\<rparr>"
  have other: "OtherState 7 \<notin> {MenuScreen, SnakeRunning, DeadSnake}" by simp
  from missing_state_is_empty[of ?s _ _ "OtherState 7" example_package "example_drawer (\<lambda>c. None)"] other
  have gone: "OtherState 7 \<notin> dom (paints (fst (New example_package (example_drawer (\<lambda>c. None)))))"
    by blast
  then have "state ?s \<notin> dom (paints ?s)" by simp
  with missing_state_is_empty[of ?s "\<lparr>world = 0, calls = []\<rparr>" "example_drawer (\<lambda>c. None)"
         "OtherState 7" example_package "example_drawer (\<lambda>c. None)"] gone
  show ?thesis by simp
qed

subsection \<open>New\<close>

text \<open>
  C5: the scene that \<open>New\<close> returns is in the state \<open>MenuScreen\<close>; its registry has
  exactly the keys \<open>MenuScreen\<close>, \<open>SnakeRunning\<close> and \<open>DeadSnake\<close>, with the menu screen
  under the first, the snake, the apple and the score under the second, and the dead
  screen under the third; the active objects are those of the menu.
\<close>

theorem New_starts_in_menu:
  "state (fst (New object d)) = MenuScreen
   \<and> dom (paints (fst (New object d))) = {MenuScreen, SnakeRunning, DeadSnake}
   \<and> paints (fst (New object d)) MenuScreen =
       Some [WelcomeText object \<lparr>W = ScreenWidth d, H = ScreenHeight d\<rparr>
               (NewSnake object (NewApple object) (NewScore object)
                  \<lparr>W = ScreenWidth d, H = ScreenHeight d\<rparr>)]
   \<and> paints (fst (New object d)) SnakeRunning =
       Some [NewSnake object (NewApple object) (NewScore object)
               \<lparr>W = ScreenWidth d, H = ScreenHeight d\<rparr>,
             NewApple object, NewScore object]
   \<and> paints (fst (New object d)) DeadSnake =
       Some [DeadScreen object (NewScore object) \<lparr>W = ScreenWidth d, H = ScreenHeight d\<rparr>]
   \<and> active (fst (New object d)) =
       [WelcomeText object \<lparr>W = ScreenWidth d, H = ScreenHeight d\<rparr>
          (NewSnake object (NewApple object) (NewScore object)
             \<lparr>W = ScreenWidth d, H = ScreenHeight d\<rparr>)]
   \<and> snd (New object d) = None"
  by (auto simp: New_def Let_def active_def)

theorem New_starts_in_menu_witness:
  "state (fst (New example_package (example_drawer (\<lambda>c. None)))) = MenuScreen
   \<and> dom (paints (fst (New example_package (example_drawer (\<lambda>c. None)))))
       = {MenuScreen, SnakeRunning, DeadSnake}
   \<and> active (fst (New example_package (example_drawer (\<lambda>c. None))))
       = [example_object 5 None (Some SnakeRunning)]"
  using New_starts_in_menu[of example_package "example_drawer (\<lambda>c. None)"]
  by (simp add: example_package_def)

subsection \<open>The render pass\<close>





subsection \<open>The loop\<close>

lemma Run_not_running: "status p \<noteq> Running \<Longrightarrow> Run cs p = p"
  by (cases cs) simp_all

lemma on_event_frame:
  "scene (on_event e p) = scene p \<and> drawer (on_event e p) = drawer p
   \<and> events (on_event e p) = events p \<and> ticker (on_event e p) = ticker p
   \<and> errc (on_event e p) = errc p"
  by (simp add: on_event_def split: prod.splits outcome.splits)

lemma on_tick_frame:
  "paints (scene (on_tick p)) = paints (scene p)
   \<and> events (on_tick p) = events p \<and> ticker (on_tick p) = ticker p"
  by (simp add: on_tick_def Let_def split: prod.splits outcome.splits option.splits)

lemma on_tick_state:
  "state (scene (on_tick p)) =
     (case fst (update (scene p) (game p)) of Returns st \<Rightarrow> st | Panics \<Rightarrow> state (scene p))"
  by (simp add: on_tick_def Let_def split: prod.splits outcome.splits option.splits)

lemma iteration_paints: "iteration c p = Some p' \<Longrightarrow> paints (scene p') = paints (scene p)"
  by (cases c) (auto simp: on_event_frame on_tick_frame split: list.splits nat.splits)

lemma Run_paints: "paints (scene (Run cs p)) = paints (scene p)"
proof (induction cs arbitrary: p)
  case Nil
  then show ?case by simp
next
  case (Cons c cs)
  show ?case
  proof (cases "iteration c p")
    case None
    then show ?thesis by simp
  next
    case (Some p')
    with Cons[of p'] iteration_paints[OF Some] show ?thesis by simp
  qed
qed

text \<open>
  C4: \<open>handleExit\<close> returns true exactly on a quit event and on a keyboard event that is
  pressed and whose key is Escape. In the event case, once the handlers have returned,
  the process exits with code 0 exactly on these events, and an exited process runs no
  further iteration; on every other event (a released Escape, an event of another
  kind) the status is as before; no event sends anything on \<open>errc\<close>.
\<close>

theorem handleExit_iff:
  "(handleExit e \<longleftrightarrow> e = QuitEvent \<or> e = KeyboardEvent PRESSED K_ESCAPE)
   \<and> status (on_event e p) =
       (case fst (handle_range e (active (scene p)) (game p)) of
          Panics \<Rightarrow> Crashed
        | Returns u \<Rightarrow>
            if e = QuitEvent \<or> e = KeyboardEvent PRESSED K_ESCAPE then Exited 0 else status p)
   \<and> Run cs (p\<lparr>status := Exited 0\<rparr>) = p\<lparr>status := Exited 0\<rparr>
   \<and> errc (on_event e p) = errc p"
proof -
  have 1: "handleExit e \<longleftrightarrow> e = QuitEvent \<or> e = KeyboardEvent PRESSED K_ESCAPE"
    by (cases e) auto
  have 2: "status (on_event e p) =
       (case fst (handle_range e (active (scene p)) (game p)) of
          Panics \<Rightarrow> Crashed
        | Returns u \<Rightarrow> if handleExit e then Exited 0 else status p)"
    by (simp add: on_event_def split: prod.splits outcome.splits)
  have 3: "Run cs (p\<lparr>status := Exited 0\<rparr>) = p\<lparr>status := Exited 0\<rparr>"
    by (rule Run_not_running) simp
  show ?thesis using 1 2 3 on_event_frame[of e p] by simp
qed

theorem handleExit_iff_witness:
  "handleExit QuitEvent \<and> handleExit (KeyboardEvent PRESSED K_ESCAPE)
   \<and> handleExit (KeyboardEvent 0 K_ESCAPE) = False
   \<and> handleExit (KeyboardEvent PRESSED 13) = False
   \<and> handleExit (OtherEvent 3) = False
   \<and> status (on_event (KeyboardEvent PRESSED K_ESCAPE)
               (example_process (fst (New example_package (example_drawer (\<lambda>c. None)))) (\<lambda>c. None)))
       = Exited 0
   \<and> status (on_event (KeyboardEvent 0 K_ESCAPE)
               (example_process (fst (New example_package (example_drawer (\<lambda>c. None)))) (\<lambda>c. None)))
       = Running
   \<and> status (on_event (OtherEvent 3)
               (example_process (fst (New example_package (example_drawer (\<lambda>c. None)))) (\<lambda>c. None)))
       = Running"
proof -
  let ?p = "example_process (fst (New example_package (example_drawer (\<lambda>c. None)))) (\<lambda>c. None)"
  have handled: "fst (handle_range e (active (scene ?p)) (game ?p)) = Returns ()" for e
    by (simp add: example_process_def New_def active_def example_package_def example_object_def)
  have running: "status ?p = Running"
    by (simp add: example_process_def)
  from handleExit_iff[of QuitEvent ?p]
    handleExit_iff[of "KeyboardEvent PRESSED K_ESCAPE" ?p]
    handleExit_iff[of "KeyboardEvent 0 K_ESCAPE" ?p]
    handleExit_iff[of "KeyboardEvent PRESSED 13" ?p]
    handleExit_iff[of "OtherEvent 3" ?p]
  show ?thesis
    unfolding handled running by (simp add: PRESSED_def K_ESCAPE_def)
qed

text \<open>
  C6: handling an event leaves the scene, its state and its registry, as it was; a tick
  leaves the registry as it was and sets the state once, to what \<open>update\<close> returned (a
  panic of \<open>update\<close> sets nothing); and along any run of the loop the registry stays the
  one the run started with.
\<close>

theorem registry_read_only:
  "scene (on_event e p) = scene p
   \<and> paints (scene (on_tick p)) = paints (scene p)
   \<and> state (scene (on_tick p)) =
       (case fst (update (scene p) (game p)) of Returns st \<Rightarrow> st | Panics \<Rightarrow> state (scene p))
   \<and> paints (scene (Run cs p)) = paints (scene p)"
  using on_event_frame[of e p] on_tick_frame[of p] on_tick_state[of p] Run_paints[of cs p]
  by simp

theorem registry_read_only_witness:
  "paints (scene (Run [RecvTick, RecvEvent, RecvTick]
      ((example_process (fst (New example_package (example_drawer (\<lambda>c. None)))) (\<lambda>c. None))
         \<lparr>events := [OtherEvent 3], ticker := 2\<rparr>)))
     = paints (fst (New example_package (example_drawer (\<lambda>c. None))))
   \<and> state (scene (on_tick
        (example_process (fst (New example_package (example_drawer (\<lambda>c. None)))) (\<lambda>c. None))))
     = SnakeRunning"
proof -
  let ?p = "example_process (fst (New example_package (example_drawer (\<lambda>c. None)))) (\<lambda>c. None)"
  have up: "fst (update (scene ?p) (game ?p)) = Returns SnakeRunning"
    by (simp add: example_process_def New_def active_def update_def example_package_def
          example_object_def)
  from registry_read_only[of _ "?p\<lparr>events := [OtherEvent 3], ticker := 2\<rparr>" "[RecvTick, RecvEvent, RecvTick]"]
    registry_read_only[of _ ?p]
  show ?thesis
    unfolding up by (simp add: example_process_def)
qed











end
